theory Spec2Isabelle
  imports Main "HOL-Library.Word"
begin

unbundle bit_operations_syntax

section \<open>Go strings and the standard-library functions the models call\<close>

text \<open>
  A Go string is a sequence of bytes and \<open>len\<close> counts bytes, so a Go string is a
  \<open>string\<close> (a list of 8-bit characters) and \<open>len\<close> is \<open>length\<close>.
\<close>

type_synonym byte = "8 word"

definition code :: "char \<Rightarrow> nat" where
  "code c = of_char c"

text \<open>\<open>utf8.RuneSelf\<close>: bytes below it are single-byte (ASCII) runes.\<close>

definition RuneSelf :: nat where
  "RuneSelf = 128"

subsection \<open>strings.TrimSpace\<close>

text \<open>
  \<open>strings.TrimSpace\<close> removes the leading and the trailing white-space runes, as
  \<open>unicode.IsSpace\<close> defines them. The ASCII ones are the bytes of the table
  \<open>asciiSpace\<close> (tab, line feed, vertical tab, form feed, carriage return, space); the
  others are U+0085, U+00A0, U+1680, U+2000 to U+200A, U+2028, U+2029, U+202F, U+205F and
  U+3000, which a Go string holds in UTF-8. A byte sequence that is not valid UTF-8
  decodes to \<open>RuneError\<close>, which is no space, so trimming strips exactly these
  encodings from both ends.
\<close>

definition asciiSpace :: "char \<Rightarrow> bool" where
  "asciiSpace c = (code c \<in> {9, 10, 11, 12, 13, 32})"

definition unicodeSpace :: "nat list list" where
  "unicodeSpace =
     [[194, 133], [194, 160], [225, 154, 128],
      [226, 128, 128], [226, 128, 129], [226, 128, 130], [226, 128, 131],
      [226, 128, 132], [226, 128, 133], [226, 128, 134], [226, 128, 135],
      [226, 128, 136], [226, 128, 137], [226, 128, 138],
      [226, 128, 168], [226, 128, 169], [226, 128, 175],
      [226, 129, 159], [227, 128, 128]]"

text \<open>The width in bytes of the white-space rune a string starts with; 0 when it starts with none.\<close>

definition leadingSpace :: "string \<Rightarrow> nat" where
  "leadingSpace s =
     (case s of
        [] \<Rightarrow> 0
      | c # _ \<Rightarrow>
          if asciiSpace c then 1
          else (case find (\<lambda>p. take (length p) (map code s) = p) unicodeSpace of
                  Some p \<Rightarrow> length p
                | None \<Rightarrow> 0))"

text \<open>The same for the rune a string ends with (\<open>utf8.DecodeLastRuneInString\<close>).\<close>

definition trailingSpace :: "string \<Rightarrow> nat" where
  "trailingSpace s =
     (if s = [] then 0
      else if asciiSpace (last s) then 1
      else (case find (\<lambda>p. length p \<le> length s
                          \<and> drop (length s - length p) (map code s) = p) unicodeSpace of
              Some p \<Rightarrow> length p
            | None \<Rightarrow> 0))"

function TrimLeft :: "string \<Rightarrow> string" where
  "TrimLeft s = (if leadingSpace s = 0 then s else TrimLeft (drop (leadingSpace s) s))"
  by pat_completeness auto
termination
proof (relation "measure length")
  show "wf (measure length)" by simp
next
  fix s :: string
  assume w: "leadingSpace s \<noteq> 0"
  then have "s \<noteq> []" by (auto simp: leadingSpace_def)
  with w show "(drop (leadingSpace s) s, s) \<in> measure length" by simp
qed

function TrimRight :: "string \<Rightarrow> string" where
  "TrimRight s =
     (if trailingSpace s = 0 then s else TrimRight (take (length s - trailingSpace s) s))"
  by pat_completeness auto
termination
proof (relation "measure length")
  show "wf (measure length)" by simp
next
  fix s :: string
  assume w: "trailingSpace s \<noteq> 0"
  then have "s \<noteq> []" by (auto simp: trailingSpace_def)
  with w show "(take (length s - trailingSpace s) s, s) \<in> measure length" by simp
qed

declare TrimLeft.simps [simp del] TrimRight.simps [simp del]

definition TrimSpace :: "string \<Rightarrow> string" where
  "TrimSpace s = TrimRight (TrimLeft s)"

subsection \<open>strings.ToLower\<close>

text \<open>
  \<open>strings.ToLower\<close> has two paths. A string of ASCII bytes only has its letters
  \<open>A\<close> to \<open>Z\<close> moved to \<open>a\<close> to \<open>z\<close>. Any other string goes through
  \<open>strings.Map(unicode.ToLower, s)\<close>, which needs the Unicode case tables: that path
  is the parameter \<open>unicodeLower\<close>.
\<close>

definition isASCII :: "string \<Rightarrow> bool" where
  "isASCII s = list_all (\<lambda>c. code c < RuneSelf) s"

definition asciiLower :: "char \<Rightarrow> char" where
  "asciiLower c = (if 65 \<le> code c \<and> code c \<le> 90 then char_of (code c + 32) else c)"

definition ToLower :: "(string \<Rightarrow> string) \<Rightarrow> string \<Rightarrow> string" where
  "ToLower unicodeLower s = (if isASCII s then map asciiLower s else unicodeLower s)"

subsection \<open>encoding/hex\<close>

text \<open>
  \<open>hex.DecodeString\<close> reads two characters per byte, upper or lower case, and fails on
  a character that is no hexadecimal digit and on an odd length. The callers only test
  whether it failed, so the failure is \<open>None\<close>.
\<close>

definition fromHexChar :: "char \<Rightarrow> byte option" where
  "fromHexChar c =
     (let n = code c in
      if 48 \<le> n \<and> n \<le> 57 then Some (of_nat (n - 48))
      else if 97 \<le> n \<and> n \<le> 102 then Some (of_nat (n - 97 + 10))
      else if 65 \<le> n \<and> n \<le> 70 then Some (of_nat (n - 65 + 10))
      else None)"

fun hex_DecodeString :: "string \<Rightarrow> byte list option" where
  "hex_DecodeString [] = Some []"
| "hex_DecodeString [p] = None"
| "hex_DecodeString (p # q # rest) =
     (case fromHexChar p of
        None \<Rightarrow> None
      | Some a \<Rightarrow>
          (case fromHexChar q of
             None \<Rightarrow> None
           | Some b \<Rightarrow>
               (case hex_DecodeString rest of
                  None \<Rightarrow> None
                | Some bs \<Rightarrow> Some ((push_bit 4 a OR b) # bs))))"

section \<open>Errors\<close>

text \<open>
  A Go \<open>error\<close> value. \<open>ErrNoRows\<close> is \<open>sql.ErrNoRows\<close>; \<open>DriverError\<close> is any other
  error of the storage layer; \<open>HexError\<close> and \<open>X509Error\<close> are the errors of
  \<open>hex.DecodeString\<close> and \<open>x509.ParsePKIXPublicKey\<close>, \<open>UUIDError\<close> the one of
  \<open>uuid.FromString\<close>; \<open>ValidationError\<close> is the error of
  \<open>jwt.Parse\<close>, holding the key function's error when that caused it. The remaining
  ones are the values of type \<open>session.Error\<close>, named after their constructors in package
  \<open>session\<close>; \<open>TransactionError\<close> and \<open>ServerError\<close> wrap their cause.
\<close>

datatype error =
    ErrNoRows
  | DriverError string
  | HexError
  | X509Error
  | UUIDError
  | ValidationError "error option"
  | BadDataError
  | PasswordTooSimpleError
  | IdentityNonExistError
  | InvalidPasswordError
  | TransactionError error
  | ServerError error

text \<open>The type assertion \<open>err.(session.Error)\<close>.\<close>

fun isSessionError :: "error \<Rightarrow> bool" where
  "isSessionError BadDataError = True"
| "isSessionError PasswordTooSimpleError = True"
| "isSessionError IdentityNonExistError = True"
| "isSessionError InvalidPasswordError = True"
| "isSessionError (TransactionError _) = True"
| "isSessionError (ServerError _) = True"
| "isSessionError _ = False"

section \<open>Data model\<close>

type_synonym Time = nat

record NullString =
  String :: string
  Valid :: bool

record User =
  UserID :: string
  Email :: NullString
  Username :: string
  Nickname :: string
  Biography :: string
  EncryptedPassword :: NullString
  GithubID :: NullString
  GroupsCount :: "64 word"
  CreatedAt :: Time
  UpdatedAt :: Time
  SessionID :: string
  isNew :: bool

record Session =
  SessionID :: string
  UserID :: string
  Secret :: string
  CreatedAt :: Time

text \<open>The zero values that \<open>var u User\<close> and \<open>var s Session\<close> declare.\<close>

definition zeroNullString :: NullString where
  "zeroNullString = \<lparr>String = [], Valid = False\<rparr>"

definition zeroUser :: User where
  "zeroUser =
     \<lparr>User.UserID = [], Email = zeroNullString, Username = [], Nickname = [], Biography = [],
      EncryptedPassword = zeroNullString, GithubID = zeroNullString, GroupsCount = 0,
      User.CreatedAt = 0, UpdatedAt = 0, User.SessionID = [], isNew = False\<rparr>"

definition zeroSession :: Session where
  "zeroSession = \<lparr>Session.SessionID = [], Session.UserID = [], Secret = [], Session.CreatedAt = 0\<rparr>"

subsection \<open>Public keys, signing methods and tokens\<close>

text \<open>
  The concrete types \<open>x509.ParsePKIXPublicKey\<close> returns, each with its key material.
\<close>

datatype PublicKey =
    ECDSAPublicKey "byte list"
  | RSAPublicKey "byte list"
  | DSAPublicKey "byte list"
  | Ed25519PublicKey "byte list"

text \<open>The signing-method families of package \<open>jwt\<close>.\<close>

datatype SigningMethod =
    SigningMethodECDSA
  | SigningMethodHMAC
  | SigningMethodRSA
  | SigningMethodRSAPSS
  | SigningMethodNone

text \<open>
  A value of \<open>jwt.MapClaims\<close> under a key: absent, a JSON string, or any other JSON value
  (given by its rendering under \<open>fmt.Sprint\<close>).
\<close>

datatype Claim = Absent | JSONString string | JSONOther string

fun Sprint :: "Claim \<Rightarrow> string" where
  "Sprint Absent = ''<nil>''"
| "Sprint (JSONString s) = s"
| "Sprint (JSONOther r) = r"

record Token =
  Raw :: string
  Method :: SigningMethod
  Claims :: "string \<Rightarrow> Claim"
  Valid :: bool

subsection \<open>Identifiers (package uuid)\<close>

text \<open>A \<open>uuid.UUID\<close> is an array of 16 bytes; \<open>uuid.Nil\<close> is all zero.\<close>

type_synonym UUID = "byte list"

definition uuid_Nil :: UUID where
  "uuid_Nil = replicate 16 0"

definition hexDigit :: "byte \<Rightarrow> char" where
  "hexDigit b = (if unat b < 10 then char_of (48 + unat b) else char_of (87 + unat b))"

definition hex_Encode :: "byte list \<Rightarrow> string" where
  "hex_Encode bs = concat (map (\<lambda>b. [hexDigit (drop_bit 4 b), hexDigit (b AND 15)]) bs)"

text \<open>\<open>UUID.String\<close>: the canonical form \<open>xxxxxxxx-xxxx-xxxx-xxxx-xxxxxxxxxxxx\<close>.\<close>

definition uuid_String :: "UUID \<Rightarrow> string" where
  "uuid_String u =
     hex_Encode (take 4 u) @ ''-'' @ hex_Encode (take 2 (drop 4 u)) @ ''-''
       @ hex_Encode (take 2 (drop 6 u)) @ ''-'' @ hex_Encode (take 2 (drop 8 u)) @ ''-''
       @ hex_Encode (take 6 (drop 10 u))"

section \<open>What the package takes from outside\<close>

text \<open>
  The functions of other packages that the models call and that are not computed here.
  Every theorem below holds for any value of this record.
  \<^item> \<open>ParsePKIXPublicKey\<close>: \<open>x509.ParsePKIXPublicKey\<close>; \<open>None\<close> is its error.
  \<^item> \<open>validateEmailFormat\<close>: the function of this name in package \<open>models\<close>, which
    \<open>CreateUser\<close> calls; \<open>None\<close> is a nil error.
  \<^item> \<open>GenerateFromPassword\<close>: \<open>bcrypt.GenerateFromPassword\<close> at cost 10, with the salt
    it draws; \<open>Inl\<close> is its error.
  \<^item> \<open>CompareHashAndPassword\<close>: \<open>bcrypt.CompareHashAndPassword\<close>; true is a nil error.
  \<^item> \<open>FromString\<close>: \<open>uuid.FromString\<close>, which returns an identifier and an error.
  \<^item> \<open>ParseUnverified\<close>: the first step of \<open>jwt.Parse\<close>, which splits the token, decodes
    header and claims and looks the signing method up; \<open>None\<close> is its error.
  \<^item> \<open>ClaimsValid\<close>: \<open>MapClaims.Valid\<close>, the check of the time claims against the clock.
  \<^item> \<open>VerifySignature\<close>: the signature check of a signing method, given a key of the
    type that method takes and the raw token.
  \<^item> \<open>unicodeLower\<close>: the Unicode path of \<open>strings.ToLower\<close>.
\<close>

record Extern =
  ParsePKIXPublicKey :: "byte list \<Rightarrow> PublicKey option"
  validateEmailFormat :: "string \<Rightarrow> error option"
  GenerateFromPassword :: "string \<Rightarrow> error + string"
  CompareHashAndPassword :: "string \<Rightarrow> string \<Rightarrow> bool"
  FromString :: "string \<Rightarrow> UUID \<times> error option"
  ParseUnverified :: "string \<Rightarrow> Token option"
  ClaimsValid :: "(string \<Rightarrow> Claim) \<Rightarrow> Time \<Rightarrow> bool"
  VerifySignature :: "SigningMethod \<Rightarrow> PublicKey \<Rightarrow> string \<Rightarrow> bool"
  unicodeLower :: "string \<Rightarrow> string"

section \<open>Storage\<close>

text \<open>
  The two tables, and the statements issued to the database. A statement either fails in
  the storage layer or takes effect: \<open>fault db n\<close> is the error of the statement number
  \<open>n\<close>, if it fails (a lost connection, a violated constraint of the table), and
  \<open>issued\<close> counts the statements issued so far, so a function that leaves \<open>issued\<close> as
  it was has not consulted storage. A stored user has the ten columns of \<open>userColumns\<close>:
  its \<open>SessionID\<close> and \<open>isNew\<close> are the zero values.
\<close>

record Database =
  users :: "User list"
  sessions :: "Session list"
  issued :: nat
  fault :: "nat \<Rightarrow> string option"

definition statement :: "Database \<Rightarrow> error option \<times> Database" where
  "statement db = (map_option DriverError (fault db (issued db)), db\<lparr>issued := Suc (issued db)\<rparr>)"

text \<open>
  Two databases with the same rows and the same behaviour of the storage layer: they
  differ at most in the number of statements issued.
\<close>

definition sameTables :: "Database \<Rightarrow> Database \<Rightarrow> bool" where
  "sameTables db db' =
     (users db' = users db \<and> sessions db' = sessions db \<and> fault db' = fault db)"

text \<open>
  \<open>QueryRowContext\<close> followed by \<open>Scan\<close>: the error of the statement, \<open>ErrNoRows\<close> when no
  row matches, the first matching row otherwise.
\<close>

definition QueryRow :: "Database \<Rightarrow> 'r list \<Rightarrow> (error + 'r) \<times> Database" where
  "QueryRow db rows =
     (case statement db of
        (Some e, db') \<Rightarrow> (Inl e, db')
      | (None, db') \<Rightarrow> (case rows of [] \<Rightarrow> (Inl ErrNoRows, db') | r # _ \<Rightarrow> (Inr r, db')))"

text \<open>\<open>userFromRows\<close> and \<open>sessionFromRows\<close> return a pointer to the scanned value and the error of the scan.\<close>

definition userFromRows :: "error + User \<Rightarrow> User \<times> error option" where
  "userFromRows row = (case row of Inl e \<Rightarrow> (zeroUser, Some e) | Inr u \<Rightarrow> (u, None))"

definition sessionFromRows :: "error + Session \<Rightarrow> Session \<times> error option" where
  "sessionFromRows row = (case row of Inl e \<Rightarrow> (zeroSession, Some e) | Inr s \<Rightarrow> (s, None))"

text \<open>The row that \<open>INSERT INTO users\<close> stores from \<open>user.values()\<close>.\<close>

definition userRow :: "User \<Rightarrow> User" where
  "userRow u = u\<lparr>User.SessionID := [], isNew := False\<rparr>"

text \<open>
  Modelled from the spec: \<open>durable.Database.RunInTransaction\<close> is not among the sources.
  The spec gives it as run-a-function-in-transaction with automatic commit or rollback,
  where no partial state survives a failed transaction: the function runs on the
  database; when it returns an error the tables are as before and the error is returned,
  otherwise its writes stay. The variables the function has captured (\<open>'c\<close>) keep what it
  assigned in both cases, and the statements it issued stay counted.
\<close>

definition RunInTransaction ::
  "Database \<Rightarrow> (Database \<Rightarrow> (error option \<times> 'c) \<times> Database) \<Rightarrow> (error option \<times> 'c) \<times> Database" where
  "RunInTransaction db fn =
     (case fn db of
        ((Some e, c), tx) \<Rightarrow> ((Some e, c), db\<lparr>issued := issued tx\<rparr>)
      | ((None, c), tx) \<Rightarrow> ((None, c), tx))"

section \<open>Lookups\<close>

definition findUserByID ::
  "Extern \<Rightarrow> Database \<Rightarrow> string \<Rightarrow> (User option \<times> error option) \<times> Database" where
  "findUserByID ext tx uid =
     (if snd (FromString ext uid) \<noteq> None then ((None, None), tx)
      else
        (case QueryRow tx (filter (\<lambda>r. User.UserID r = uid) (users tx)) of
           (row, tx') \<Rightarrow>
             (case userFromRows row of
                (u, err) \<Rightarrow>
                  if err = Some ErrNoRows then ((None, None), tx')
                  else ((Some u, err), tx'))))"

definition readSession ::
  "Extern \<Rightarrow> Database \<Rightarrow> string \<Rightarrow> string \<Rightarrow> (Session option \<times> error option) \<times> Database" where
  "readSession ext tx uid sid =
     (if uuid_String (fst (FromString ext uid)) = uuid_String uuid_Nil then ((None, None), tx)
      else if uuid_String (fst (FromString ext sid)) = uuid_String uuid_Nil then ((None, None), tx)
      else
        (case QueryRow tx (filter (\<lambda>r. Session.UserID r = uid \<and> Session.SessionID r = sid)
                             (sessions tx)) of
           (row, tx') \<Rightarrow>
             (case sessionFromRows row of
                (s, err) \<Rightarrow>
                  if err = Some ErrNoRows then ((None, None), tx')
                  else ((Some s, err), tx'))))"

definition findUserByIdentity ::
  "Database \<Rightarrow> string \<Rightarrow> (User option \<times> error option) \<times> Database" where
  "findUserByIdentity tx identity =
     (case QueryRow tx (filter (\<lambda>r. Username r = identity
                                    \<or> (NullString.Valid (Email r) \<and> String (Email r) = identity))
                          (users tx)) of
        (row, tx') \<Rightarrow>
          (case userFromRows row of
             (u, err) \<Rightarrow>
               if err = Some ErrNoRows then ((None, None), tx')
               else if err \<noteq> None then ((None, err), tx')
               else ((Some u, None), tx')))"

text \<open>
  \<open>ReadUserByUsernameOrEmail\<close>: the function run in the transaction assigns the captured
  \<open>user\<close> and returns the error of \<open>findUserByIdentity\<close>.
\<close>

definition ReadUserByUsernameOrEmail ::
  "Extern \<Rightarrow> Database \<Rightarrow> string \<Rightarrow> (User option \<times> error option) \<times> Database" where
  "ReadUserByUsernameOrEmail ext db identity0 =
     (let identity = ToLower (unicodeLower ext) (TrimSpace identity0) in
      if length identity < 3 then ((None, None), db)
      else
        (case RunInTransaction db
                (\<lambda>tx. case findUserByIdentity tx identity of
                         ((user, err), tx') \<Rightarrow> ((err, user), tx')) of
           ((Some err, user), db') \<Rightarrow> ((None, Some (TransactionError err)), db')
         | ((None, user), db') \<Rightarrow> ((user, None), db')))"

section \<open>Registration and login\<close>

text \<open>
  What a call draws from the random source and the clock: the identifiers of
  \<open>uuid.NewV4\<close> for the user and for the session, and the instants of \<open>time.Now\<close> in
  \<open>CreateUser\<close> and in \<open>addSession\<close>.
\<close>

record Entropy =
  userUUID :: UUID
  sessionUUID :: UUID
  userTime :: Time
  sessionTime :: Time

definition validateAndEncryptPassword :: "Extern \<Rightarrow> string \<Rightarrow> string \<times> error option" where
  "validateAndEncryptPassword ext password =
     (if length password < 8 then (password, Some PasswordTooSimpleError)
      else if length password > 64 then (password, Some BadDataError)
      else
        (case GenerateFromPassword ext password of
           Inl err \<Rightarrow> (password, Some (ServerError err))
         | Inr hashedPassword \<Rightarrow> (hashedPassword, None)))"

text \<open>\<open>addSession\<close> returns the new session or an error, never both nil.\<close>

definition addSession ::
  "User \<Rightarrow> Entropy \<Rightarrow> Database \<Rightarrow> string \<Rightarrow> (error + Session) \<times> Database" where
  "addSession user en tx secret =
     (let s = \<lparr>Session.SessionID = uuid_String (sessionUUID en),
                Session.UserID = User.UserID user,
                Secret = secret,
                Session.CreatedAt = sessionTime en\<rparr>
      in case statement tx of
           (Some err, tx') \<Rightarrow> (Inl (TransactionError err), tx')
         | (None, tx') \<Rightarrow> (Inr s, tx'\<lparr>sessions := sessions tx' @ [s]\<rparr>))"

text \<open>
  The function \<open>CreateUser\<close> runs in its transaction: insert the user, add the session,
  attach the session's identifier to the captured \<open>user\<close>.
\<close>

definition createUserTx ::
  "User \<Rightarrow> Entropy \<Rightarrow> string \<Rightarrow> Database \<Rightarrow> (error option \<times> User) \<times> Database" where
  "createUserTx user en sessionSecret tx =
     (case statement tx of
        (Some err, tx1) \<Rightarrow> ((Some err, user), tx1)
      | (None, tx1) \<Rightarrow>
          (case addSession user en (tx1\<lparr>users := users tx1 @ [userRow user]\<rparr>) sessionSecret of
             (Inl err, tx2) \<Rightarrow> ((Some err, user), tx2)
           | (Inr s, tx2) \<Rightarrow> ((None, user\<lparr>User.SessionID := Session.SessionID s\<rparr>), tx2)))"

definition CreateUser ::
  "Extern \<Rightarrow> Entropy \<Rightarrow> Database \<Rightarrow> string \<Rightarrow> string \<Rightarrow> string \<Rightarrow> string \<Rightarrow> string \<Rightarrow> string
     \<Rightarrow> (User option \<times> error option) \<times> Database" where
  "CreateUser ext en db email0 username0 nickname0 biography password0 sessionSecret =
     (case hex_DecodeString sessionSecret of
        None \<Rightarrow> ((None, Some BadDataError), db)
      | Some data \<Rightarrow>
      (case ParsePKIXPublicKey ext data of
        None \<Rightarrow> ((None, Some BadDataError), db)
      | Some (RSAPublicKey _) \<Rightarrow> ((None, Some BadDataError), db)
      | Some (DSAPublicKey _) \<Rightarrow> ((None, Some BadDataError), db)
      | Some (Ed25519PublicKey _) \<Rightarrow> ((None, Some BadDataError), db)
      | Some (ECDSAPublicKey _) \<Rightarrow>
      (let email = TrimSpace email0 in
       case validateEmailFormat ext email of
        Some err \<Rightarrow> ((None, Some err), db)
      | None \<Rightarrow>
      (let username = TrimSpace username0 in
       if length username < 3 then ((None, Some BadDataError), db)
       else
      (let nickname1 = TrimSpace nickname0;
           nickname = (if nickname1 = [] then username else nickname1)
       in case validateAndEncryptPassword ext password0 of
        (_, Some err) \<Rightarrow> ((None, Some err), db)
      | (password, None) \<Rightarrow>
      (let t = userTime en;
           user = \<lparr>User.UserID = uuid_String (userUUID en),
                   Email = \<lparr>String = email, Valid = True\<rparr>,
                   Username = username,
                   Nickname = nickname,
                   Biography = biography,
                   EncryptedPassword = \<lparr>String = password, Valid = True\<rparr>,
                   GithubID = zeroNullString,
                   GroupsCount = 0,
                   User.CreatedAt = t,
                   UpdatedAt = t,
                   User.SessionID = [],
                   isNew = False\<rparr>
       in case RunInTransaction db (createUserTx user en sessionSecret) of
            ((Some err, _), db') \<Rightarrow>
              if isSessionError err then ((None, Some err), db')
              else ((None, Some (TransactionError err)), db')
          | ((None, user'), db') \<Rightarrow> ((Some user', None), db')))))))"

text \<open>The function \<open>CreateSession\<close> runs in its transaction.\<close>

definition createSessionTx ::
  "User \<Rightarrow> Entropy \<Rightarrow> string \<Rightarrow> Database \<Rightarrow> (error option \<times> User) \<times> Database" where
  "createSessionTx user en sessionSecret tx =
     (case addSession user en tx sessionSecret of
        (Inl err, tx') \<Rightarrow> ((Some err, user), tx')
      | (Inr s, tx') \<Rightarrow> ((None, user\<lparr>User.SessionID := Session.SessionID s\<rparr>), tx'))"

definition CreateSession ::
  "Extern \<Rightarrow> Entropy \<Rightarrow> Database \<Rightarrow> string \<Rightarrow> string \<Rightarrow> string
     \<Rightarrow> (User option \<times> error option) \<times> Database" where
  "CreateSession ext en db identity password sessionSecret =
     (case hex_DecodeString sessionSecret of
        None \<Rightarrow> ((None, Some BadDataError), db)
      | Some data \<Rightarrow>
      (case ParsePKIXPublicKey ext data of
        None \<Rightarrow> ((None, Some BadDataError), db)
      | Some (RSAPublicKey _) \<Rightarrow> ((None, Some BadDataError), db)
      | Some (DSAPublicKey _) \<Rightarrow> ((None, Some BadDataError), db)
      | Some (Ed25519PublicKey _) \<Rightarrow> ((None, Some BadDataError), db)
      | Some (ECDSAPublicKey _) \<Rightarrow>
      (case ReadUserByUsernameOrEmail ext db identity of
        ((_, Some err), db1) \<Rightarrow> ((None, Some err), db1)
      | ((None, None), db1) \<Rightarrow> ((None, Some IdentityNonExistError), db1)
      | ((Some user, None), db1) \<Rightarrow>
          if \<not> CompareHashAndPassword ext (String (EncryptedPassword user)) password
          then ((None, Some InvalidPasswordError), db1)
          else
            (case RunInTransaction db1 (createSessionTx user en sessionSecret) of
               ((Some err, _), db2) \<Rightarrow> ((None, Some (TransactionError err)), db2)
             | ((None, user'), db2) \<Rightarrow> ((Some user', None), db2)))))"

section \<open>Profile update\<close>

text \<open>
  \<open>UpdateProfile\<close> has a pointer receiver: it returns the user as the call leaves it,
  with the error. The \<open>UPDATE\<close> sets the three columns of every row whose \<open>user_id\<close> is
  the user's.
\<close>

definition UpdateProfile ::
  "User \<Rightarrow> Time \<Rightarrow> Database \<Rightarrow> string \<Rightarrow> string \<Rightarrow> (User \<times> error option) \<times> Database" where
  "UpdateProfile u now db nickname0 biography0 =
     (let nickname = TrimSpace nickname0; biography = TrimSpace biography0 in
      if length nickname = 0 \<and> length biography = 0 then ((u, None), db)
      else
        (let u1 = (if nickname \<noteq> [] then u\<lparr>Nickname := nickname\<rparr> else u);
             u2 = (if biography \<noteq> [] then u1\<lparr>Biography := biography\<rparr> else u1);
             u3 = u2\<lparr>UpdatedAt := now\<rparr>
         in case statement db of
              (Some err, db') \<Rightarrow> ((u3, Some (TransactionError err)), db')
            | (None, db') \<Rightarrow>
                ((u3, None),
                 db'\<lparr>users :=
                       map (\<lambda>r. if User.UserID r = User.UserID u3
                                then r\<lparr>Nickname := Nickname u3, Biography := Biography u3,
                                       UpdatedAt := UpdatedAt u3\<rparr>
                                else r)
                           (users db')\<rparr>)))"

section \<open>Token verification\<close>

text \<open>A call returns or panics (a nil pointer dereference).\<close>

datatype 'a outcome = Panic | Return 'a

text \<open>
  \<open>Verify\<close> of a signing method starts with a type assertion on the key: the
  elliptic-curve family takes a \<open>*ecdsa.PublicKey\<close>, the RSA families a \<open>*rsa.PublicKey\<close>,
  the HMAC family a byte slice and the method \<open>none\<close> a constant of its own. A key
  function of this package returns nil or a key of \<open>x509.ParsePKIXPublicKey\<close>, so the last
  two always fail.
\<close>

definition Verify :: "Extern \<Rightarrow> SigningMethod \<Rightarrow> PublicKey option \<Rightarrow> string \<Rightarrow> bool" where
  "Verify ext m key raw =
     (case m of
        SigningMethodECDSA \<Rightarrow>
          (case key of
             Some (ECDSAPublicKey k) \<Rightarrow> VerifySignature ext m (ECDSAPublicKey k) raw
           | _ \<Rightarrow> False)
      | SigningMethodRSA \<Rightarrow>
          (case key of
             Some (RSAPublicKey k) \<Rightarrow> VerifySignature ext m (RSAPublicKey k) raw
           | _ \<Rightarrow> False)
      | SigningMethodRSAPSS \<Rightarrow>
          (case key of
             Some (RSAPublicKey k) \<Rightarrow> VerifySignature ext m (RSAPublicKey k) raw
           | _ \<Rightarrow> False)
      | SigningMethodHMAC \<Rightarrow> False
      | SigningMethodNone \<Rightarrow> False)"

text \<open>
  \<open>jwt.Parse\<close>: decode the token; ask the key function for the key; check the claims and
  the signature. The token is valid when both checks pass. The key function works on
  a state \<open>'s\<close> (the variables it has captured and the database).
\<close>

definition jwt_Parse ::
  "Extern \<Rightarrow> Time \<Rightarrow> string
     \<Rightarrow> (Token \<Rightarrow> 's \<Rightarrow> (PublicKey option \<times> error option) outcome \<times> 's) \<Rightarrow> 's
     \<Rightarrow> (Token option \<times> error option) outcome \<times> 's" where
  "jwt_Parse ext now tokenString keyFunc st =
     (case ParseUnverified ext tokenString of
        None \<Rightarrow> (Return (None, Some (ValidationError None)), st)
      | Some token0 \<Rightarrow>
          (let token = token0\<lparr>Valid := False\<rparr> in
           case keyFunc token st of
             (Panic, st') \<Rightarrow> (Panic, st')
           | (Return (_, Some err), st') \<Rightarrow>
               (Return (Some token, Some (ValidationError (Some err))), st')
           | (Return (key, None), st') \<Rightarrow>
               if ClaimsValid ext (Claims token) now \<and> Verify ext (Method token) key (Raw token)
               then (Return (Some (token\<lparr>Valid := True\<rparr>), None), st')
               else (Return (Some token, Some (ValidationError None)), st')))"

text \<open>
  The function \<open>AuthenticateUser\<close> runs in its transaction. It assigns the captured
  \<open>user\<close> and \<open>s\<close>; \<open>user0\<close> is \<open>user\<close> before the call and \<open>s\<close> starts nil.
\<close>

definition authenticateTx ::
  "Extern \<Rightarrow> string \<Rightarrow> string \<Rightarrow> User option \<Rightarrow> Database
     \<Rightarrow> (error option \<times> User option \<times> Session option) \<times> Database" where
  "authenticateTx ext uid sid user0 tx =
     (case findUserByID ext tx uid of
        ((_, Some err), tx1) \<Rightarrow> ((Some err, user0, None), tx1)
      | ((None, None), tx1) \<Rightarrow> ((None, user0, None), tx1)
      | ((Some u, None), tx1) \<Rightarrow>
          (case readSession ext tx1 uid sid of
             ((s, Some err), tx2) \<Rightarrow> ((Some err, Some u, s), tx2)
           | ((None, None), tx2) \<Rightarrow> ((None, Some u, None), tx2)
           | ((Some s, None), tx2) \<Rightarrow>
               ((None, Some (u\<lparr>User.SessionID := Session.SessionID s\<rparr>), Some s), tx2)))"

text \<open>
  The key function of \<open>AuthenticateUser\<close>. \<open>jwt.Parse\<close> always decodes into
  \<open>jwt.MapClaims\<close>, so the first type assertion holds. After a transaction without
  error the function reads \<open>s.Secret\<close>, whether or not \<open>s\<close> was assigned.
\<close>

definition authenticateKeyFunc ::
  "Extern \<Rightarrow> Token \<Rightarrow> Database \<times> User option
     \<Rightarrow> (PublicKey option \<times> error option) outcome \<times> (Database \<times> User option)" where
  "authenticateKeyFunc ext token st =
     (case st of (db, user0) \<Rightarrow>
      if Method token \<noteq> SigningMethodECDSA then (Return (None, None), (db, user0))
      else
        (let uid = Sprint (Claims token ''uid''); sid = Sprint (Claims token ''sid'') in
         case RunInTransaction db (authenticateTx ext uid sid user0) of
           ((Some err, user, s), db') \<Rightarrow>
             if isSessionError err then (Return (None, Some err), (db', user))
             else (Return (None, Some (TransactionError err)), (db', user))
         | ((None, user, None), db') \<Rightarrow> (Panic, (db', user))
         | ((None, user, Some s), db') \<Rightarrow>
             (case hex_DecodeString (Secret s) of
                None \<Rightarrow> (Return (None, Some HexError), (db', user))
              | Some pkix \<Rightarrow>
                  (case ParsePKIXPublicKey ext pkix of
                     None \<Rightarrow> (Return (None, Some X509Error), (db', user))
                   | Some key \<Rightarrow> (Return (Some key, None), (db', user))))))"

definition AuthenticateUser ::
  "Extern \<Rightarrow> Time \<Rightarrow> Database \<Rightarrow> string \<Rightarrow> (User option \<times> error option) outcome \<times> Database" where
  "AuthenticateUser ext now db tokenString =
     (case jwt_Parse ext now tokenString (authenticateKeyFunc ext) (db, None) of
        (Panic, (db', _)) \<Rightarrow> (Panic, db')
      | (Return (_, Some err), (db', _)) \<Rightarrow> (Return (None, None), db')
      | (Return (None, None), (db', _)) \<Rightarrow> (Panic, db')
      | (Return (Some token, None), (db', user)) \<Rightarrow>
          if \<not> Valid token then (Return (None, None), db')
          else (Return (user, None), db'))"

section \<open>Roles\<close>

text \<open>
  The fields of \<open>configs.Option\<close> that role resolution reads. \<open>Init\<close> takes the option of
  the environment as the configuration file gives it, and builds \<open>OperatorSet\<close> from
  \<open>Operators\<close>; the result is the process-wide \<open>AppConfig\<close>.
\<close>

record Option =
  Operators :: "string list"
  Environment :: string
  OperatorSet :: "string \<rightharpoonup> bool"

definition Init :: "Option \<Rightarrow> string \<Rightarrow> Option" where
  "Init opt env =
     opt\<lparr>Environment := env,
         OperatorSet := fold (\<lambda>operator m. m(operator \<mapsto> True)) (Operators opt) Map.empty\<rparr>"

definition userRoleAdmin :: string where
  "userRoleAdmin = ''admin''"

definition userRoleMember :: string where
  "userRoleMember = ''member''"

text \<open>Reading a Go map at a key it does not hold gives the zero value, false.\<close>

definition Role :: "Option \<Rightarrow> User \<Rightarrow> string" where
  "Role AppConfig u =
     (if (case OperatorSet AppConfig (String (Email u)) of Some b \<Rightarrow> b | None \<Rightarrow> False)
      then userRoleAdmin else userRoleMember)"

section \<open>A concrete environment\<close>

text \<open>
  The theorems hold for every \<open>Extern\<close>; their instances below are computed in this one.
  Identifiers are parsed in canonical form only, the key parser knows one elliptic-curve
  key (the bytes \<open>ec\<close>) and one RSA key (the bytes \<open>52\<close>), the token \<open>es256.alice\<close> is
  signed with the former and expires at instant 100, and \<open>hs256.alice\<close> carries the
  same claims under the HMAC family.
\<close>

definition parseCanonical :: "string \<Rightarrow> UUID \<times> error option" where
  "parseCanonical s =
     (if length s = 36 \<and> s ! 8 = CHR ''-'' \<and> s ! 13 = CHR ''-'' \<and> s ! 18 = CHR ''-''
           \<and> s ! 23 = CHR ''-''
      then (case hex_DecodeString (filter (\<lambda>c. c \<noteq> CHR ''-'') s) of
              Some u \<Rightarrow> if length u = 16 then (u, None) else (uuid_Nil, Some UUIDError)
            | None \<Rightarrow> (uuid_Nil, Some UUIDError))
      else (uuid_Nil, Some UUIDError))"

definition aliceID :: string where
  "aliceID = ''11111111-1111-1111-1111-111111111111''"

definition aliceSessionID :: string where
  "aliceSessionID = ''22222222-2222-2222-2222-222222222222''"

definition nilID :: string where
  "nilID = ''00000000-0000-0000-0000-000000000000''"

definition testClaims :: "string \<Rightarrow> Claim" where
  "testClaims k =
     (if k = ''uid'' then JSONString aliceID
      else if k = ''sid'' then JSONString aliceSessionID
      else Absent)"

definition testExtern :: Extern where
  "testExtern =
     \<lparr>ParsePKIXPublicKey =
        (\<lambda>data. if data = [236] then Some (ECDSAPublicKey [1])
                else if data = [82] then Some (RSAPublicKey [2])
                else None),
      validateEmailFormat = (\<lambda>email. if CHR ''@'' \<in> set email then None else Some BadDataError),
      GenerateFromPassword = (\<lambda>password. Inr (''hash:'' @ password)),
      CompareHashAndPassword = (\<lambda>hashed password. hashed = ''hash:'' @ password),
      FromString = parseCanonical,
      ParseUnverified =
        (\<lambda>tokenString.
           if tokenString = ''es256.alice''
           then Some \<lparr>Raw = tokenString, Method = SigningMethodECDSA, Claims = testClaims,
                      Valid = False\<rparr>
           else if tokenString = ''hs256.alice''
           then Some \<lparr>Raw = tokenString, Method = SigningMethodHMAC, Claims = testClaims,
                      Valid = False\<rparr>
           else None),
      ClaimsValid = (\<lambda>claims now. now < 100),
      VerifySignature =
        (\<lambda>m key raw. m = SigningMethodECDSA \<and> key = ECDSAPublicKey [1] \<and> raw = ''es256.alice''),
      unicodeLower = (\<lambda>s. s)\<rparr>"

definition testEntropy :: Entropy where
  "testEntropy =
     \<lparr>userUUID = replicate 16 17, sessionUUID = replicate 16 34, userTime = 5, sessionTime = 6\<rparr>"

definition emptyDatabase :: Database where
  "emptyDatabase = \<lparr>users = [], sessions = [], issued = 0, fault = (\<lambda>n. None)\<rparr>"

text \<open>
  The user and the session that registering \<open>Alice\<close> on the empty database stores, and
  the database after it.
\<close>

definition alice :: User where
  "alice =
     \<lparr>User.UserID = aliceID,
      Email = \<lparr>String = ''Alice@Example.com'', Valid = True\<rparr>,
      Username = ''Alice'', Nickname = ''Alice'', Biography = ''bio'',
      EncryptedPassword = \<lparr>String = ''hash:12345678'', Valid = True\<rparr>,
      GithubID = zeroNullString, GroupsCount = 0,
      User.CreatedAt = 5, UpdatedAt = 5, User.SessionID = [], isNew = False\<rparr>"

definition aliceSession :: Session where
  "aliceSession =
     \<lparr>Session.SessionID = aliceSessionID, Session.UserID = aliceID, Secret = ''ec'',
      Session.CreatedAt = 6\<rparr>"

definition aliceDatabase :: Database where
  "aliceDatabase = \<lparr>users = [alice], sessions = [aliceSession], issued = 2, fault = (\<lambda>n. None)\<rparr>"

text \<open>A second user, whose stored username and email are in lower case.\<close>

definition bob :: User where
  "bob =
     \<lparr>User.UserID = ''33333333-3333-3333-3333-333333333333'',
      Email = \<lparr>String = ''bob@example.com'', Valid = True\<rparr>,
      Username = ''bobby'', Nickname = ''Bob'', Biography = [],
      EncryptedPassword = \<lparr>String = ''hash:swordfish'', Valid = True\<rparr>,
      GithubID = zeroNullString, GroupsCount = 0,
      User.CreatedAt = 8, UpdatedAt = 8, User.SessionID = [], isNew = False\<rparr>"

definition twoUsers :: Database where
  "twoUsers = \<lparr>users = [alice, bob], sessions = [aliceSession], issued = 3, fault = (\<lambda>n. None)\<rparr>"

text \<open>The same database when the storage layer fails every statement.\<close>

definition brokenDatabase :: Database where
  "brokenDatabase = aliceDatabase\<lparr>fault := (\<lambda>n. Some ''connection reset'')\<rparr>"

definition testOption :: Option where
  "testOption =
     \<lparr>Operators = [''Alice@Example.com'', ''root@example.com''], Environment = [],
      OperatorSet = Map.empty\<rparr>"

section \<open>Session secrets are checked first\<close>

text \<open>
  C2. A session secret that is not a hexadecimal string, or whose bytes are no PKIX
  public key, or whose key is not an elliptic-curve key, makes both \<open>CreateUser\<close> and
  \<open>CreateSession\<close> fail with \<open>BadDataError\<close>, whatever the other arguments are, and the
  database is returned as it was: no statement has been issued.
\<close>

theorem bad_session_secret_rejected:
  assumes "hex_DecodeString sessionSecret = None
     \<or> (\<exists>data. hex_DecodeString sessionSecret = Some data \<and> ParsePKIXPublicKey ext data = None)
     \<or> (\<exists>data key. hex_DecodeString sessionSecret = Some data
           \<and> ParsePKIXPublicKey ext data = Some key \<and> (\<forall>k. key \<noteq> ECDSAPublicKey k))"
  shows "CreateUser ext en db email username nickname biography password sessionSecret
           = ((None, Some BadDataError), db)
       \<and> CreateSession ext en db identity password sessionSecret = ((None, Some BadDataError), db)"
  using assms
  by (auto simp: CreateUser_def CreateSession_def split: option.splits PublicKey.splits)

theorem bad_session_secret_rejected_witness:
  "CreateUser testExtern testEntropy aliceDatabase ''bob@example.com'' ''bobby'' [] []
       ''12345678'' ''xyz'' = ((None, Some BadDataError), aliceDatabase)
   \<and> CreateSession testExtern testEntropy aliceDatabase ''Alice'' ''12345678'' ''00''
       = ((None, Some BadDataError), aliceDatabase)
   \<and> CreateSession testExtern testEntropy aliceDatabase ''Alice'' ''12345678'' ''52''
       = ((None, Some BadDataError), aliceDatabase)"
proof -
  have nohex: "hex_DecodeString ''xyz'' = None"
    by code_simp
  have nopkix: "hex_DecodeString ''00'' = Some [0] \<and> ParsePKIXPublicKey testExtern [0] = None"
    by code_simp
  have rsa: "hex_DecodeString ''52'' = Some [82]
      \<and> ParsePKIXPublicKey testExtern [82] = Some (RSAPublicKey [2])"
    by code_simp
  have a: "CreateUser testExtern testEntropy aliceDatabase ''bob@example.com'' ''bobby'' [] []
       ''12345678'' ''xyz'' = ((None, Some BadDataError), aliceDatabase)"
    by (rule conjunct1 [OF bad_session_secret_rejected]) (use nohex in blast)
  have b: "CreateSession testExtern testEntropy aliceDatabase ''Alice'' ''12345678'' ''00''
       = ((None, Some BadDataError), aliceDatabase)"
    by (rule conjunct2 [OF bad_session_secret_rejected]) (use nopkix in blast)
  have c: "CreateSession testExtern testEntropy aliceDatabase ''Alice'' ''12345678'' ''52''
       = ((None, Some BadDataError), aliceDatabase)"
    by (rule conjunct2 [OF bad_session_secret_rejected]) (use rsa in blast)
  show ?thesis
    using a b c by simp
qed

section \<open>Tokens of another signing-method family\<close>

text \<open>
  C6. For a token whose header names a signing method outside the elliptic-curve
  family, \<open>AuthenticateUser\<close> returns nil user and nil error, whatever the claims and the
  signature are, and issues no statement: the key function returns a nil key, which no
  method accepts.
\<close>

theorem other_signing_method_not_authenticated:
  assumes "ParseUnverified ext tokenString = Some token"
    and "Method token \<noteq> SigningMethodECDSA"
  shows "AuthenticateUser ext now db tokenString = (Return (None, None), db)"
  using assms
  by (cases "Method token")
    (simp_all add: AuthenticateUser_def jwt_Parse_def authenticateKeyFunc_def Verify_def)

theorem other_signing_method_not_authenticated_witness:
  "AuthenticateUser testExtern 7 aliceDatabase ''hs256.alice'' = (Return (None, None), aliceDatabase)"
proof -
  have parsed: "ParseUnverified testExtern ''hs256.alice''
      = Some \<lparr>Raw = ''hs256.alice'', Method = SigningMethodHMAC, Claims = testClaims, Valid = False\<rparr>"
    by (simp add: testExtern_def)
  show ?thesis
    by (rule other_signing_method_not_authenticated [OF parsed]) simp
qed

section \<open>Session lookup with a nil identifier\<close>

text \<open>
  C7. When the user identifier or the session identifier is the nil identifier,
  \<open>readSession\<close> returns nil session and nil error and the database as it was: no statement
  has been issued.
\<close>

theorem readSession_nil_identifier:
  assumes "fst (FromString ext uid) = uuid_Nil \<or> fst (FromString ext sid) = uuid_Nil"
  shows "readSession ext tx uid sid = ((None, None), tx)"
  using assms by (auto simp: readSession_def)

theorem readSession_nil_identifier_witness:
  "readSession testExtern aliceDatabase nilID aliceSessionID = ((None, None), aliceDatabase)
   \<and> readSession testExtern aliceDatabase aliceID nilID = ((None, None), aliceDatabase)"
proof -
  have nil: "fst (FromString testExtern nilID) = uuid_Nil"
    by code_simp
  show ?thesis
    using readSession_nil_identifier [of testExtern nilID aliceSessionID aliceDatabase]
      readSession_nil_identifier [of testExtern aliceID nilID aliceDatabase] nil
    by simp
qed

section \<open>Roles\<close>

lemma fold_OperatorSet:
  "fold (\<lambda>operator m. m(operator \<mapsto> True)) ops m0 k =
     (if k \<in> set ops then Some True else m0 k)"
  by (induction ops arbitrary: m0) auto

text \<open>
  C8. With the configuration that \<open>Init\<close> builds, \<open>Role\<close> is \<open>admin\<close> exactly when the
  string of the user's email is among the operators, and \<open>member\<close> exactly when it is
  not. \<open>Role\<close> is a function of the configuration and the user alone. A user without
  email has the empty string there, and falls under the same condition.
\<close>

theorem Role_admin_iff_operator:
  "(Role (Init opt env) u = userRoleAdmin \<longleftrightarrow> String (Email u) \<in> set (Operators opt))
   \<and> (Role (Init opt env) u = userRoleMember \<longleftrightarrow> String (Email u) \<notin> set (Operators opt))"
  by (simp add: Role_def Init_def fold_OperatorSet userRoleAdmin_def userRoleMember_def)

theorem Role_admin_iff_operator_witness:
  "Role (Init testOption ''production'') alice = userRoleAdmin
   \<and> Role (Init testOption ''production'') zeroUser = userRoleMember"
proof -
  have a: "String (Email alice) \<in> set (Operators testOption)"
    by (simp add: alice_def testOption_def)
  have z: "String (Email zeroUser) \<notin> set (Operators testOption)"
    by (simp add: zeroUser_def zeroNullString_def testOption_def)
  show ?thesis
    using Role_admin_iff_operator [of testOption "''production''" alice]
      Role_admin_iff_operator [of testOption "''production''" zeroUser] a z
    by simp
qed

section \<open>Password length\<close>

lemma validateAndEncryptPassword_cases:
  "(length password < 8
      \<longrightarrow> validateAndEncryptPassword ext password = (password, Some PasswordTooSimpleError))
   \<and> (64 < length password
      \<longrightarrow> validateAndEncryptPassword ext password = (password, Some BadDataError))
   \<and> (8 \<le> length password \<and> length password \<le> 64
      \<longrightarrow> validateAndEncryptPassword ext password =
            (case GenerateFromPassword ext password of
               Inl err \<Rightarrow> (password, Some (ServerError err))
             | Inr hashedPassword \<Rightarrow> (hashedPassword, None)))"
  by (simp add: validateAndEncryptPassword_def)

lemma RunInTransaction_createUserTx:
  assumes "fault db (issued db) = None" and "fault db (Suc (issued db)) = None"
  shows "RunInTransaction db (createUserTx user en secret) =
    ((None, user\<lparr>User.SessionID := uuid_String (sessionUUID en)\<rparr>),
     db\<lparr>issued := Suc (Suc (issued db)),
        users := users db @ [userRow user],
        sessions := sessions db @
          [\<lparr>Session.SessionID = uuid_String (sessionUUID en), Session.UserID = User.UserID user,
            Secret = secret, Session.CreatedAt = sessionTime en\<rparr>]\<rparr>)"
  using assms
  by (simp add: RunInTransaction_def createUserTx_def addSession_def statement_def Let_def)

text \<open>
  C3. In \<open>CreateUser\<close>, once the session secret, the email and the username have passed
  their checks: a password shorter than 8 bytes fails with \<open>PasswordTooSimpleError\<close>, one
  longer than 64 bytes fails with \<open>BadDataError\<close>, both before any statement is issued;
  a password of 8 to 64 bytes, the bounds included, passes: when \<open>bcrypt\<close> returns its
  hash and the two inserts take effect, the user is returned and stored with that hash,
  together with a new session.
\<close>

theorem password_length_bounds:
  assumes "hex_DecodeString sessionSecret = Some data"
    and "ParsePKIXPublicKey ext data = Some (ECDSAPublicKey k)"
    and "validateEmailFormat ext (TrimSpace email) = None"
    and "3 \<le> length (TrimSpace username)"
  shows "(length password < 8 \<longrightarrow>
            CreateUser ext en db email username nickname biography password sessionSecret
              = ((None, Some PasswordTooSimpleError), db))
       \<and> (64 < length password \<longrightarrow>
            CreateUser ext en db email username nickname biography password sessionSecret
              = ((None, Some BadDataError), db))
       \<and> (8 \<le> length password \<and> length password \<le> 64
            \<and> GenerateFromPassword ext password = Inr hashedPassword
            \<and> fault db (issued db) = None \<and> fault db (Suc (issued db)) = None \<longrightarrow>
            (\<exists>user db'.
               CreateUser ext en db email username nickname biography password sessionSecret
                 = ((Some user, None), db')
               \<and> EncryptedPassword user = \<lparr>String = hashedPassword, Valid = True\<rparr>
               \<and> users db' = users db @ [userRow user]
               \<and> length (sessions db') = Suc (length (sessions db))))"
  using assms validateAndEncryptPassword_cases [of password ext]
  by (auto simp: CreateUser_def Let_def RunInTransaction_createUserTx userRow_def)

theorem password_length_bounds_witness:
  "CreateUser testExtern testEntropy emptyDatabase ''Alice@Example.com'' '' Alice '' [] ''bio''
       ''1234567'' ''ec'' = ((None, Some PasswordTooSimpleError), emptyDatabase)
   \<and> CreateUser testExtern testEntropy emptyDatabase ''Alice@Example.com'' '' Alice '' [] ''bio''
       (replicate 65 CHR ''a'') ''ec'' = ((None, Some BadDataError), emptyDatabase)
   \<and> (\<exists>user db'.
         CreateUser testExtern testEntropy emptyDatabase ''Alice@Example.com'' '' Alice '' [] ''bio''
           ''12345678'' ''ec'' = ((Some user, None), db')
         \<and> EncryptedPassword user = \<lparr>String = ''hash:12345678'', Valid = True\<rparr>
         \<and> users db' = [userRow user] \<and> length (sessions db') = 1)
   \<and> (\<exists>user db'.
         CreateUser testExtern testEntropy emptyDatabase ''Alice@Example.com'' '' Alice '' [] ''bio''
           (replicate 64 CHR ''a'') ''ec'' = ((Some user, None), db')
         \<and> EncryptedPassword user = \<lparr>String = ''hash:'' @ replicate 64 CHR ''a'', Valid = True\<rparr>
         \<and> users db' = [userRow user] \<and> length (sessions db') = 1)"
proof -
  have h1: "hex_DecodeString ''ec'' = Some [236]"
    by code_simp
  have h2: "ParsePKIXPublicKey testExtern [236] = Some (ECDSAPublicKey [1])"
    by (simp add: testExtern_def)
  have h3: "validateEmailFormat testExtern (TrimSpace ''Alice@Example.com'') = None"
    by code_simp
  have h4: "3 \<le> length (TrimSpace '' Alice '')"
    by code_simp
  have gen: "GenerateFromPassword testExtern password = Inr (''hash:'' @ password)" for password
    by (simp add: testExtern_def)
  have nf: "fault emptyDatabase n = None" for n
    by (simp add: emptyDatabase_def)
  have e: "users emptyDatabase = [] \<and> sessions emptyDatabase = []"
    by (simp add: emptyDatabase_def)
  note T = password_length_bounds [OF h1 h2 h3 h4, where en = testEntropy and db = emptyDatabase
      and nickname = "[]" and biography = "''bio''"]
  have a: "CreateUser testExtern testEntropy emptyDatabase ''Alice@Example.com'' '' Alice '' [] ''bio''
       ''1234567'' ''ec'' = ((None, Some PasswordTooSimpleError), emptyDatabase)"
    using T [where password = "''1234567''" and hashedPassword = "[]"] by simp
  have b: "CreateUser testExtern testEntropy emptyDatabase ''Alice@Example.com'' '' Alice '' [] ''bio''
       (replicate 65 CHR ''a'') ''ec'' = ((None, Some BadDataError), emptyDatabase)"
    using T [where password = "replicate 65 CHR ''a''" and hashedPassword = "[]"] by simp
  have c: "\<exists>user db'.
         CreateUser testExtern testEntropy emptyDatabase ''Alice@Example.com'' '' Alice '' [] ''bio''
           ''12345678'' ''ec'' = ((Some user, None), db')
         \<and> EncryptedPassword user = \<lparr>String = ''hash:12345678'', Valid = True\<rparr>
         \<and> users db' = [userRow user] \<and> length (sessions db') = 1"
    using T [where password = "''12345678''" and hashedPassword = "''hash:12345678''"]
      gen [of "''12345678''"] nf e by simp
  have d: "\<exists>user db'.
         CreateUser testExtern testEntropy emptyDatabase ''Alice@Example.com'' '' Alice '' [] ''bio''
           (replicate 64 CHR ''a'') ''ec'' = ((Some user, None), db')
         \<and> EncryptedPassword user = \<lparr>String = ''hash:'' @ replicate 64 CHR ''a'', Valid = True\<rparr>
         \<and> users db' = [userRow user] \<and> length (sessions db') = 1"
    using T [where password = "replicate 64 CHR ''a''"
        and hashedPassword = "''hash:'' @ replicate 64 CHR ''a''"]
      gen [of "replicate 64 CHR ''a''"] nf e by simp
  show ?thesis
    using a b c d by blast
qed

section \<open>Login failures\<close>

lemma ReadUserByUsernameOrEmail_short:
  "length (ToLower (unicodeLower ext) (TrimSpace identity)) < 3
    \<Longrightarrow> ReadUserByUsernameOrEmail ext db identity = ((None, None), db)"
  by (simp add: ReadUserByUsernameOrEmail_def Let_def)

lemma ReadUserByUsernameOrEmail_rows:
  assumes "3 \<le> length (ToLower (unicodeLower ext) (TrimSpace identity))"
    and "fault db (issued db) = None"
  shows "ReadUserByUsernameOrEmail ext db identity =
    ((case filter (\<lambda>r. Username r = ToLower (unicodeLower ext) (TrimSpace identity)
                        \<or> (NullString.Valid (Email r)
                             \<and> String (Email r) = ToLower (unicodeLower ext) (TrimSpace identity)))
             (users db) of
        [] \<Rightarrow> None | r # _ \<Rightarrow> Some r, None),
     db\<lparr>issued := Suc (issued db)\<rparr>)"
  using assms
  by (simp add: ReadUserByUsernameOrEmail_def Let_def RunInTransaction_def findUserByIdentity_def
      QueryRow_def statement_def userFromRows_def split: list.splits)

text \<open>
  C5. \<open>CreateSession\<close> with a well-formed session secret. The identity is trimmed and
  lower-cased; when fewer than 3 bytes remain, or when the lookup succeeds and no stored
  user has it as username or email, the call fails with \<open>IdentityNonExistError\<close>. When
  the lookup finds a user and the password does not match the stored hash, the call
  fails with \<open>InvalidPasswordError\<close>. In each case the database returned differs from
  the one given at most in the number of statements issued: no session row is added.
\<close>

theorem login_failures:
  assumes "hex_DecodeString sessionSecret = Some data"
    and "ParsePKIXPublicKey ext data = Some (ECDSAPublicKey k)"
    and "lowered = ToLower (unicodeLower ext) (TrimSpace identity)"
    and "matching = filter (\<lambda>r. Username r = lowered
                                \<or> (NullString.Valid (Email r) \<and> String (Email r) = lowered))
                      (users db)"
  shows "(length lowered < 3 \<longrightarrow>
            CreateSession ext en db identity password sessionSecret
              = ((None, Some IdentityNonExistError), db))
       \<and> (3 \<le> length lowered \<and> fault db (issued db) = None \<and> matching = [] \<longrightarrow>
            CreateSession ext en db identity password sessionSecret
              = ((None, Some IdentityNonExistError), db\<lparr>issued := Suc (issued db)\<rparr>))
       \<and> (3 \<le> length lowered \<and> fault db (issued db) = None \<and> matching = user # others
            \<and> \<not> CompareHashAndPassword ext (String (EncryptedPassword user)) password \<longrightarrow>
            CreateSession ext en db identity password sessionSecret
              = ((None, Some InvalidPasswordError), db\<lparr>issued := Suc (issued db)\<rparr>))
       \<and> sessions (db\<lparr>issued := Suc (issued db)\<rparr>) = sessions db"
proof -
  have short: "length lowered < 3 \<Longrightarrow> ReadUserByUsernameOrEmail ext db identity = ((None, None), db)"
    using assms(3) by (simp add: ReadUserByUsernameOrEmail_short)
  have rows: "3 \<le> length lowered \<Longrightarrow> fault db (issued db) = None \<Longrightarrow>
      ReadUserByUsernameOrEmail ext db identity =
        ((case matching of [] \<Rightarrow> None | r # _ \<Rightarrow> Some r, None), db\<lparr>issued := Suc (issued db)\<rparr>)"
    using assms(3,4) by (simp add: ReadUserByUsernameOrEmail_rows)
  show ?thesis
    using assms(1,2) short rows
    by (auto simp: CreateSession_def)
qed

theorem login_failures_witness:
  "CreateSession testExtern testEntropy twoUsers '' bo '' ''swordfish'' ''ec''
      = ((None, Some IdentityNonExistError), twoUsers)
   \<and> CreateSession testExtern testEntropy twoUsers ''Carol'' ''swordfish'' ''ec''
      = ((None, Some IdentityNonExistError), twoUsers\<lparr>issued := 4\<rparr>)
   \<and> CreateSession testExtern testEntropy twoUsers '' BOBBY '' ''12345678'' ''ec''
      = ((None, Some InvalidPasswordError), twoUsers\<lparr>issued := 4\<rparr>)
   \<and> sessions (twoUsers\<lparr>issued := 4\<rparr>) = sessions twoUsers"
proof -
  have h1: "hex_DecodeString ''ec'' = Some [236]"
    by code_simp
  have h2: "ParsePKIXPublicKey testExtern [236] = Some (ECDSAPublicKey [1])"
    by (simp add: testExtern_def)
  have nf: "fault twoUsers (issued twoUsers) = None" and i: "Suc (issued twoUsers) = 4"
    by (simp_all add: twoUsers_def)
  have l1: "ToLower (unicodeLower testExtern) (TrimSpace '' bo '') = ''bo''"
    by code_simp
  have l2: "ToLower (unicodeLower testExtern) (TrimSpace ''Carol'') = ''carol''"
    by code_simp
  have m2: "filter (\<lambda>r. Username r = ''carol''
                \<or> (NullString.Valid (Email r) \<and> String (Email r) = ''carol'')) (users twoUsers) = []"
    by code_simp
  have l3: "ToLower (unicodeLower testExtern) (TrimSpace '' BOBBY '') = ''bobby''"
    by code_simp
  have m3: "filter (\<lambda>r. Username r = ''bobby''
                \<or> (NullString.Valid (Email r) \<and> String (Email r) = ''bobby'')) (users twoUsers) = [bob]"
    by code_simp
  have p3: "\<not> CompareHashAndPassword testExtern (String (EncryptedPassword bob)) ''12345678''"
    by code_simp
  note T = login_failures [OF h1 h2 refl refl, where db = twoUsers and en = testEntropy]
  have a: "CreateSession testExtern testEntropy twoUsers '' bo '' ''swordfish'' ''ec''
      = ((None, Some IdentityNonExistError), twoUsers)"
    using T [where identity = "'' bo ''" and password = "''swordfish''" and user = bob and others = "[]"] l1
    by simp
  have b: "CreateSession testExtern testEntropy twoUsers ''Carol'' ''swordfish'' ''ec''
      = ((None, Some IdentityNonExistError), twoUsers\<lparr>issued := 4\<rparr>)"
    using T [where identity = "''Carol''" and password = "''swordfish''" and user = bob and others = "[]"]
      l2 m2 nf i
    by simp
  have c: "CreateSession testExtern testEntropy twoUsers '' BOBBY '' ''12345678'' ''ec''
      = ((None, Some InvalidPasswordError), twoUsers\<lparr>issued := 4\<rparr>)"
    using T [where identity = "'' BOBBY ''" and password = "''12345678''" and user = bob and others = "[]"]
      l3 m3 nf i p3
    by simp
  show ?thesis
    using a b c by simp
qed

section \<open>Profile update\<close>

lemma filter_other_rows:
  assumes "\<And>r. User.UserID (g r) = User.UserID r"
  shows "filter (\<lambda>r. User.UserID r \<noteq> i) (map (\<lambda>r. if User.UserID r = i then g r else r) xs)
       = filter (\<lambda>r. User.UserID r \<noteq> i) xs"
  by (induction xs) (simp_all add: assms)

text \<open>
  C10. When nickname and biography are both blank after trimming, \<open>UpdateProfile\<close>
  returns the user and the database as they were, without error: no statement has been
  issued. In every case the user keeps its identifier, email, username, password hash,
  GitHub identifier, groups count and creation time; a blank argument leaves the
  nickname, respectively the biography, as it was; the stored rows keep every column
  other than nickname, biography and update time, the rows of other users keep all
  columns, and the sessions are untouched.
\<close>

theorem UpdateProfile_frame:
  "(TrimSpace nickname = [] \<and> TrimSpace biography = []
      \<longrightarrow> UpdateProfile u now db nickname biography = ((u, None), db))
   \<and> (case UpdateProfile u now db nickname biography of
        ((u', err), db') \<Rightarrow>
          User.UserID u' = User.UserID u \<and> Email u' = Email u \<and> Username u' = Username u
          \<and> EncryptedPassword u' = EncryptedPassword u \<and> GithubID u' = GithubID u
          \<and> GroupsCount u' = GroupsCount u \<and> User.CreatedAt u' = User.CreatedAt u
          \<and> User.SessionID u' = User.SessionID u \<and> isNew u' = isNew u
          \<and> Nickname u' = (if TrimSpace nickname = [] then Nickname u else TrimSpace nickname)
          \<and> Biography u' = (if TrimSpace biography = [] then Biography u else TrimSpace biography)
          \<and> sessions db' = sessions db
          \<and> map (\<lambda>r. r\<lparr>Nickname := [], Biography := [], UpdatedAt := 0\<rparr>) (users db')
              = map (\<lambda>r. r\<lparr>Nickname := [], Biography := [], UpdatedAt := 0\<rparr>) (users db)
          \<and> filter (\<lambda>r. User.UserID r \<noteq> User.UserID u) (users db')
              = filter (\<lambda>r. User.UserID r \<noteq> User.UserID u) (users db))"
  by (auto simp: UpdateProfile_def Let_def statement_def filter_other_rows
      split: option.splits if_splits prod.splits)

theorem UpdateProfile_frame_witness:
  "UpdateProfile alice 9 aliceDatabase ''  '' [] = ((alice, None), aliceDatabase)
   \<and> (case UpdateProfile bob 9 twoUsers '' Robert '' ''  '' of
        ((u', err), db') \<Rightarrow>
          Nickname u' = ''Robert'' \<and> Biography u' = [] \<and> Username u' = ''bobby''
          \<and> Email u' = Email bob \<and> EncryptedPassword u' = EncryptedPassword bob
          \<and> sessions db' = [aliceSession]
          \<and> filter (\<lambda>r. User.UserID r \<noteq> User.UserID bob) (users db') = [alice])"
proof -
  have t1: "TrimSpace ''  '' = []" and t2: "TrimSpace '' Robert '' = ''Robert''"
    by code_simp+
  have f: "filter (\<lambda>r. User.UserID r \<noteq> User.UserID bob) (users twoUsers) = [alice]"
    by code_simp
  have a: "UpdateProfile alice 9 aliceDatabase ''  '' [] = ((alice, None), aliceDatabase)"
    using UpdateProfile_frame [of "''  ''" "[]" alice 9 aliceDatabase] t1
    by (simp add: TrimLeft.simps TrimRight.simps TrimSpace_def leadingSpace_def trailingSpace_def)
  show ?thesis
    using a UpdateProfile_frame [of "'' Robert ''" "''  ''" bob 9 twoUsers] t1 t2 f
    by (auto simp: bob_def twoUsers_def split: prod.splits)
qed

section \<open>Token verification reads only\<close>

lemma sameTables_refl: "sameTables db db"
  by (simp add: sameTables_def)

lemma sameTables_trans: "sameTables a b \<Longrightarrow> sameTables b c \<Longrightarrow> sameTables a c"
  by (simp add: sameTables_def)

lemma QueryRow_sameTables: "QueryRow db rows = (row, db') \<Longrightarrow> sameTables db db'"
  by (auto simp: QueryRow_def statement_def sameTables_def split: option.splits list.splits)

lemma findUserByID_sameTables: "findUserByID ext tx uid = (r, tx') \<Longrightarrow> sameTables tx tx'"
  by (auto simp: findUserByID_def sameTables_refl split: if_splits prod.splits
      dest: QueryRow_sameTables)

lemma readSession_sameTables: "readSession ext tx uid sid = (r, tx') \<Longrightarrow> sameTables tx tx'"
  by (auto simp: readSession_def sameTables_refl split: if_splits prod.splits
      dest: QueryRow_sameTables)

lemma authenticateTx_sameTables:
  "authenticateTx ext uid sid user0 tx = (r, tx') \<Longrightarrow> sameTables tx tx'"
  by (auto simp: authenticateTx_def split: prod.splits option.splits
      dest!: findUserByID_sameTables readSession_sameTables intro: sameTables_trans)

lemma RunInTransaction_sameTables:
  assumes "\<And>tx r tx'. fn tx = (r, tx') \<Longrightarrow> sameTables tx tx'"
    and "RunInTransaction db fn = (r, db')"
  shows "sameTables db db'"
  using assms(2) assms(1) [of db]
  by (auto simp: RunInTransaction_def sameTables_def split: prod.splits option.splits)

lemma authenticateKeyFunc_sameTables:
  assumes "authenticateKeyFunc ext token (db, user0) = (r, (db', user))"
  shows "sameTables db db'"
proof (cases "Method token \<noteq> SigningMethodECDSA")
  case True
  with assms show ?thesis by (simp add: authenticateKeyFunc_def sameTables_refl)
next
  case False
  obtain r1 db1 where run: "RunInTransaction db
      (authenticateTx ext (Sprint (Claims token ''uid'')) (Sprint (Claims token ''sid'')) user0)
        = (r1, db1)"
    by (cases "RunInTransaction db
      (authenticateTx ext (Sprint (Claims token ''uid'')) (Sprint (Claims token ''sid'')) user0)")
      auto
  have "sameTables db db1"
    using RunInTransaction_sameTables [OF _ run] authenticateTx_sameTables by blast
  moreover have "db' = db1"
    using assms False run
    by (auto simp: authenticateKeyFunc_def Let_def split: prod.splits option.splits if_splits)
  ultimately show ?thesis by simp
qed

lemma AuthenticateUser_sameTables:
  assumes "AuthenticateUser ext now db tokenString = (r, db')"
  shows "sameTables db db'"
  using assms
  by (auto simp: AuthenticateUser_def jwt_Parse_def Let_def sameTables_refl
      split: option.splits prod.splits outcome.splits if_splits
      dest: authenticateKeyFunc_sameTables)

section \<open>Repeated verification\<close>

lemma findUserByID_nofault:
  assumes "fault tx (issued tx) = None"
  shows "findUserByID ext tx uid =
     (if snd (FromString ext uid) \<noteq> None then ((None, None), tx)
      else ((case filter (\<lambda>r. User.UserID r = uid) (users tx) of [] \<Rightarrow> None | r # _ \<Rightarrow> Some r,
             None), tx\<lparr>issued := Suc (issued tx)\<rparr>))"
  using assms
  by (simp add: findUserByID_def QueryRow_def statement_def userFromRows_def split: list.splits)

lemma readSession_nofault:
  assumes "fault tx (issued tx) = None"
  shows "readSession ext tx uid sid =
     (if uuid_String (fst (FromString ext uid)) = uuid_String uuid_Nil
         \<or> uuid_String (fst (FromString ext sid)) = uuid_String uuid_Nil then ((None, None), tx)
      else ((case filter (\<lambda>r. Session.UserID r = uid \<and> Session.SessionID r = sid) (sessions tx) of
               [] \<Rightarrow> None | s # _ \<Rightarrow> Some s,
             None), tx\<lparr>issued := Suc (issued tx)\<rparr>))"
  using assms
  by (simp add: readSession_def QueryRow_def statement_def sessionFromRows_def split: list.splits)

lemma authenticateTx_nofault:
  assumes "\<forall>n. fault tx n = None" and "sameTables tx tx1"
  shows "fst (authenticateTx ext uid sid user0 tx1) = fst (authenticateTx ext uid sid user0 tx)"
  using assms
  by (auto simp: authenticateTx_def findUserByID_nofault readSession_nofault sameTables_def
      split: list.splits)

lemma RunInTransaction_fst:
  assumes "fst (fn db1) = fst (fn db)"
  shows "fst (RunInTransaction db1 fn) = fst (RunInTransaction db fn)"
  using assms
  by (auto simp: RunInTransaction_def split: prod.splits option.splits)

lemma authenticateKeyFunc_nofault:
  assumes "\<forall>n. fault db n = None" and "sameTables db db1"
  shows "fst (authenticateKeyFunc ext token (db1, user0))
           = fst (authenticateKeyFunc ext token (db, user0))
       \<and> snd (snd (authenticateKeyFunc ext token (db1, user0)))
           = snd (snd (authenticateKeyFunc ext token (db, user0)))"
proof -
  let ?fn = "authenticateTx ext (Sprint (Claims token ''uid'')) (Sprint (Claims token ''sid'')) user0"
  have "fst (RunInTransaction db1 ?fn) = fst (RunInTransaction db ?fn)"
    by (rule RunInTransaction_fst) (rule authenticateTx_nofault [OF assms])
  then show ?thesis
    by (auto simp: authenticateKeyFunc_def Let_def split: prod.splits option.splits)
qed

lemma AuthenticateUser_nofault:
  assumes "\<forall>n. fault db n = None" and "sameTables db db1"
    and "\<forall>t. ParseUnverified ext tokenString = Some t
            \<longrightarrow> ClaimsValid ext (Claims t) now1 = ClaimsValid ext (Claims t) now"
  shows "fst (AuthenticateUser ext now1 db1 tokenString) = fst (AuthenticateUser ext now db tokenString)"
proof (cases "ParseUnverified ext tokenString")
  case None
  then show ?thesis by (simp add: AuthenticateUser_def jwt_Parse_def)
next
  case (Some t)
  let ?k1 = "authenticateKeyFunc ext (t\<lparr>Valid := False\<rparr>) (db1, None)"
  let ?k = "authenticateKeyFunc ext (t\<lparr>Valid := False\<rparr>) (db, None)"
  have k: "fst ?k1 = fst ?k \<and> snd (snd ?k1) = snd (snd ?k)"
    by (rule authenticateKeyFunc_nofault [OF assms(1,2)])
  have c: "ClaimsValid ext (Claims t) now1 = ClaimsValid ext (Claims t) now"
    using assms(3) Some by simp
  obtain r1 d1 u1 where e1: "?k1 = (r1, (d1, u1))" by (cases ?k1) auto
  obtain r d u where e: "?k = (r, (d, u))" by (cases ?k) auto
  from k e1 e have eq: "r1 = r" "u1 = u" by simp_all
  show ?thesis
  proof (cases r)
    case Panic
    then show ?thesis
      using Some e1 e eq by (simp add: AuthenticateUser_def jwt_Parse_def)
  next
    case (Return p)
    obtain key err where p: "p = (key, err)" by (cases p) auto
    show ?thesis
    proof (cases err)
      case None
      then show ?thesis
        using Some c e1 e eq Return p by (simp add: AuthenticateUser_def jwt_Parse_def Let_def)
    next
      case (Some a)
      then show ?thesis
        using \<open>ParseUnverified ext tokenString = Some t\<close> e1 e eq Return p
        by (simp add: AuthenticateUser_def jwt_Parse_def)
    qed
  qed
qed

lemma AuthenticateUser_success_claims:
  assumes "AuthenticateUser ext now db tokenString = (Return (Some user, None), db1)"
  shows "\<exists>t. ParseUnverified ext tokenString = Some t \<and> ClaimsValid ext (Claims t) now"
  using assms
  by (auto simp: AuthenticateUser_def jwt_Parse_def Let_def
      split: option.splits prod.splits outcome.splits if_splits)

text \<open>
  C9. Let the storage layer fail no statement, let \<open>AuthenticateUser\<close> return a user for
  a token, and let the token's time claims still hold at the instant of a second call on
  the database the first call returned. Then the second call returns the same user,
  with the same user identifier and the same session identifier attached, and after
  each call the users, the sessions and the storage layer are as before the first:
  verification issues queries only.
\<close>

theorem repeated_verification:
  assumes "\<forall>n. fault db n = None"
    and "AuthenticateUser ext now db tokenString = (Return (Some user, None), db1)"
    and "\<forall>t. ParseUnverified ext tokenString = Some t \<longrightarrow> ClaimsValid ext (Claims t) now'"
  shows "\<exists>db2. AuthenticateUser ext now' db1 tokenString = (Return (Some user, None), db2)
           \<and> sameTables db db1 \<and> sameTables db db2"
proof -
  have s1: "sameTables db db1"
    using assms(2) by (rule AuthenticateUser_sameTables)
  have "\<forall>t. ParseUnverified ext tokenString = Some t
      \<longrightarrow> ClaimsValid ext (Claims t) now' = ClaimsValid ext (Claims t) now"
    using AuthenticateUser_success_claims [OF assms(2)] assms(3) by auto
  then have "fst (AuthenticateUser ext now' db1 tokenString)
      = fst (AuthenticateUser ext now db tokenString)"
    by (rule AuthenticateUser_nofault [OF assms(1) s1])
  then have r: "AuthenticateUser ext now' db1 tokenString
      = (Return (Some user, None), snd (AuthenticateUser ext now' db1 tokenString))"
    using assms(2) by (metis fst_conv prod.collapse)
  then have "sameTables db1 (snd (AuthenticateUser ext now' db1 tokenString))"
    by (rule AuthenticateUser_sameTables)
  with s1 r show ?thesis
    by (blast intro: sameTables_trans)
qed

theorem repeated_verification_witness:
  "\<exists>db1 db2.
     AuthenticateUser testExtern 7 aliceDatabase ''es256.alice''
       = (Return (Some (alice\<lparr>User.SessionID := aliceSessionID\<rparr>), None), db1)
     \<and> AuthenticateUser testExtern 8 db1 ''es256.alice''
       = (Return (Some (alice\<lparr>User.SessionID := aliceSessionID\<rparr>), None), db2)
     \<and> sameTables aliceDatabase db1 \<and> sameTables aliceDatabase db2"
proof -
  have nf: "\<forall>n. fault aliceDatabase n = None"
    by (simp add: aliceDatabase_def)
  have "fst (AuthenticateUser testExtern 7 aliceDatabase ''es256.alice'')
      = Return (Some (alice\<lparr>User.SessionID := aliceSessionID\<rparr>), None)"
    by code_simp
  then have first: "AuthenticateUser testExtern 7 aliceDatabase ''es256.alice''
      = (Return (Some (alice\<lparr>User.SessionID := aliceSessionID\<rparr>), None),
         snd (AuthenticateUser testExtern 7 aliceDatabase ''es256.alice''))"
    by (metis prod.collapse)
  have still: "\<forall>t. ParseUnverified testExtern ''es256.alice'' = Some t
      \<longrightarrow> ClaimsValid testExtern (Claims t) 8"
    by (simp add: testExtern_def)
  show ?thesis
    using repeated_verification [OF nf first still] first by blast
qed

section \<open>Storage faults during verification\<close>

text \<open>
  Whatever happens, \<open>AuthenticateUser\<close> returns no error: every error of \<open>jwt.Parse\<close>,
  the key function's included, ends in nil user and nil error.
\<close>

lemma AuthenticateUser_never_errors:
  "fst (AuthenticateUser ext now db tokenString) \<noteq> Return (user, Some err)"
  by (auto simp: AuthenticateUser_def split: option.splits prod.splits outcome.splits if_splits)

text \<open>
  C1. The token \<open>es256.alice\<close> is valid for the user \<open>alice\<close>. When the storage layer
  fails the lookup of the user, the key function wraps the fault in \<open>TransactionError\<close>
  and returns it, and \<open>AuthenticateUser\<close> returns nil user and nil error all the same,
  as it does for a token that is rejected: the fault does not reach the caller.
\<close>

theorem storage_fault_swallowed:
  "fst (authenticateKeyFunc testExtern
          \<lparr>Raw = ''es256.alice'', Method = SigningMethodECDSA, Claims = testClaims, Valid = False\<rparr>
          (brokenDatabase, None))
     = Return (None, Some (TransactionError (DriverError ''connection reset'')))
   \<and> fst (AuthenticateUser testExtern 7 brokenDatabase ''es256.alice'') = Return (None, None)
   \<and> fst (AuthenticateUser testExtern 7 aliceDatabase ''es256.alice'')
       = Return (Some (alice\<lparr>User.SessionID := aliceSessionID\<rparr>), None)"
  by code_simp

section \<open>Identity lookup and letter case\<close>

text \<open>
  C4. \<open>CreateUser\<close> stores the username and the email as given, apart from trimming:
  registering \<open>Alice\<close> with \<open>Alice@Example.com\<close> on the empty database stores these
  strings. \<open>ReadUserByUsernameOrEmail\<close> lower-cases the identity and compares it with the
  stored columns as they are, so the lookup finds this user neither by \<open>Alice\<close>, nor by
  \<open>alice\<close>, nor by the email, and \<open>CreateSession\<close> with the right password fails with
  \<open>IdentityNonExistError\<close>.
\<close>

theorem mixed_case_username_not_found:
  "fst (CreateUser testExtern testEntropy emptyDatabase ''Alice@Example.com'' '' Alice '' [] ''bio''
          ''12345678'' ''ec'') = (Some (alice\<lparr>User.SessionID := aliceSessionID\<rparr>), None)
   \<and> users (snd (CreateUser testExtern testEntropy emptyDatabase ''Alice@Example.com'' '' Alice '' []
          ''bio'' ''12345678'' ''ec'')) = users aliceDatabase
   \<and> fst (ReadUserByUsernameOrEmail testExtern aliceDatabase ''Alice'') = (None, None)
   \<and> fst (ReadUserByUsernameOrEmail testExtern aliceDatabase ''alice'') = (None, None)
   \<and> fst (ReadUserByUsernameOrEmail testExtern aliceDatabase ''Alice@Example.com'') = (None, None)
   \<and> fst (CreateSession testExtern testEntropy aliceDatabase ''Alice'' ''12345678'' ''ec'')
       = (None, Some IdentityNonExistError)"
  by code_simp

end
